theory Spec2Isabelle
  imports Main "HOL-Library.AList"
begin

section \<open>Values, exceptions and the enum of \<^verbatim>\<open>audit_logger.py\<close>\<close>

text \<open>
  The client of \<^verbatim>\<open>src/blockchain/audit_logger.py\<close> talks to a ledger through the web3
  binding library. Values that cross that boundary are Python values; the ones that
  occur are integers, strings, booleans and tuples of them.
\<close>

datatype pyval = PInt int | PStr string | PBool bool | PTuple "pyval list"

text \<open>
  Exceptions. \<open>FileNotFoundError\<close>, \<open>ValueError\<close> and \<open>Exception\<close> are raised by the
  source itself (lines 42, 65, 105); \<open>IndexError\<close> and \<open>KeyError\<close> by subscripts;
  \<open>NotAValidNodeStatus v\<close> is the \<open>ValueError\<close> that \<open>NodeStatus(v)\<close> raises for a value
  that is no member; \<open>ContractLogicError\<close> is named at line 107; \<open>Other cls msg\<close> is any
  other exception raised inside a library call (class name and message).
\<close>

datatype exn =
    FileNotFoundError string
  | ValueError string
  | NotAValidNodeStatus pyval
  | IndexError string
  | KeyError string
  | Exception string
  | ContractLogicError string
  | Other string string

text \<open>\<^verbatim>\<open>class NodeStatus(IntEnum)\<close>, lines 16-20.\<close>

datatype NodeStatus = Normal | Scaling | Alert

text \<open>\<^verbatim>\<open>int(status)\<close>\<close>

fun int_of_NodeStatus :: "NodeStatus \<Rightarrow> int" where
  "int_of_NodeStatus Normal = 0"
| "int_of_NodeStatus Scaling = 1"
| "int_of_NodeStatus Alert = 2"

text \<open>\<^verbatim>\<open>status.name\<close>\<close>

fun name_of_NodeStatus :: "NodeStatus \<Rightarrow> string" where
  "name_of_NodeStatus Normal = ''Normal''"
| "name_of_NodeStatus Scaling = ''Scaling''"
| "name_of_NodeStatus Alert = ''Alert''"

text \<open>
  \<^verbatim>\<open>NodeStatus(value)\<close>: the member whose value equals the argument, \<open>ValueError\<close>
  otherwise. Python's \<open>True\<close> and \<open>False\<close> equal 1 and 0.
\<close>

fun NodeStatus_of :: "pyval \<Rightarrow> exn + NodeStatus" where
  "NodeStatus_of (PInt n) =
     (if n = 0 then Inr Normal
      else if n = 1 then Inr Scaling
      else if n = 2 then Inr Alert
      else Inl (NotAValidNodeStatus (PInt n)))"
| "NodeStatus_of (PBool b) = (if b then Inr Scaling else Inr Normal)"
| "NodeStatus_of v = Inl (NotAValidNodeStatus v)"

text \<open>\<^verbatim>\<open>str.lower()\<close> on the ASCII range, which is where addresses live.\<close>

definition lower_char :: "char \<Rightarrow> char" where
  "lower_char c =
     (case map_of (zip ''ABCDEFGHIJKLMNOPQRSTUVWXYZ'' ''abcdefghijklmnopqrstuvwxyz'') c of
        None \<Rightarrow> c
      | Some d \<Rightarrow> d)"

definition lower :: "string \<Rightarrow> string" where
  "lower s = map lower_char s"

text \<open>\<^verbatim>\<open>metrics[i]\<close> on a tuple, for the constant indices the source uses.\<close>

definition subscript :: "pyval list \<Rightarrow> nat \<Rightarrow> exn + pyval" where
  "subscript xs i =
     (if i < length xs then Inr (xs ! i) else Inl (IndexError ''tuple index out of range''))"

text \<open>A dict with string keys, in insertion order; \<^verbatim>\<open>d[k]\<close> and \<^verbatim>\<open>d[k] = v\<close>.\<close>

type_synonym dict = "(string \<times> pyval) list"

definition dict_get :: "dict \<Rightarrow> string \<Rightarrow> exn + pyval" where
  "dict_get d k = (case map_of d k of None \<Rightarrow> Inl (KeyError k) | Some v \<Rightarrow> Inr v)"

definition dict_set :: "dict \<Rightarrow> string \<Rightarrow> pyval \<Rightarrow> dict" where
  "dict_set d k v = (if k \<in> fst ` set d then AList.update k v d else d @ [(k, v)])"

section \<open>The objects handed to and returned by the binding library\<close>

text \<open>\<^verbatim>\<open>contract.functions.NAME(args)\<close>: a bound contract call.\<close>

datatype contract_function = ContractFunction (fn_name: string) (fn_args: "pyval list")

text \<open>The dict given to \<^verbatim>\<open>build_transaction\<close>, lines 86-91.\<close>

record tx_params =
  p_chainId :: int
  p_gas :: int
  p_gasPrice :: int
  p_nonce :: int

text \<open>
  What \<^verbatim>\<open>build_transaction\<close> returns: the call (target and encoded arguments) together
  with the four fields of the request.
\<close>

record transaction =
  tx_data :: contract_function
  tx_chainId :: int
  tx_gas :: int
  tx_gasPrice :: int
  tx_nonce :: int

text \<open>The signed payload, kept symbolic: the transaction and the key that signed it.\<close>

datatype raw_tx = RawTx (raw_txn: transaction) (raw_key: string)

record signed_txn =
  rawTransaction :: raw_tx

text \<open>A transaction hash, kept symbolic: it names the sender and the nonce.\<close>

datatype tx_hash = TxHash string int

record receipt =
  rc_status :: int

record account =
  acct_key :: string
  acct_address :: string

text \<open>The fields of an \<^verbatim>\<open>AuditLogger\<close> instance, lines 45-50.\<close>

record audit_logger =
  contract_address :: string
  contract_abi :: string
  account :: account
  address :: string

section \<open>Calls into the library and the ledger, and their trace\<close>

text \<open>
  One event per call that leaves the client, in the order the calls are made. A read,
  \<^verbatim>\<open>contract.functions.NAME(args).call()\<close>, is one event \<open>EvCall\<close>; for a write the
  binding \<^verbatim>\<open>contract.functions.NAME(args)\<close> is the event \<open>EvFunction\<close> and the steps of
  \<^verbatim>\<open>_send_transaction\<close> follow.
\<close>

datatype event =
    EvOpenAbi string
  | EvToChecksumAddress string
  | EvContract string string
  | EvFromKey
  | EvCall contract_function
  | EvFunction string "pyval list"
  | EvGetTransactionCount string
  | EvChainId
  | EvGasPrice
  | EvBuildTransaction contract_function tx_params
  | EvSignTransaction transaction
  | EvSendRawTransaction raw_tx
  | EvWaitForTransactionReceipt tx_hash

text \<open>The only call that writes to the ledger is the broadcast.\<close>

fun is_write :: "event \<Rightarrow> bool" where
  "is_write (EvSendRawTransaction _) = True"
| "is_write _ = False"

definition writes :: "event list \<Rightarrow> event list" where
  "writes tr = filter is_write tr"

text \<open>
  The library and the ledger behind it are not part of the repository. They are a
  parameter: a record of operations over a world \<open>'w\<close>, each of which returns a value or
  raises, and may change the world. The reads carry the return types of the contract
  surface (a bool, an address, a tuple, a list of tuples).
\<close>

record 'w gateway =
  open_abi :: "'w \<Rightarrow> string \<Rightarrow> (exn + string) \<times> 'w"
  to_checksum_address :: "'w \<Rightarrow> string \<Rightarrow> (exn + string) \<times> 'w"
  eth_contract :: "'w \<Rightarrow> string \<Rightarrow> string \<Rightarrow> (exn + unit) \<times> 'w"
  from_key :: "'w \<Rightarrow> string \<Rightarrow> (exn + account) \<times> 'w"
  call_authorizedLoggers :: "'w \<Rightarrow> string \<Rightarrow> (exn + bool) \<times> 'w"
  call_owner :: "'w \<Rightarrow> (exn + string) \<times> 'w"
  call_getLatestNodeMetrics :: "'w \<Rightarrow> string \<Rightarrow> (exn + pyval list) \<times> 'w"
  call_getNodeMetricsHistory :: "'w \<Rightarrow> string \<Rightarrow> int \<Rightarrow> int \<Rightarrow> (exn + pyval list list) \<times> 'w"
  contract_functions :: "'w \<Rightarrow> string \<Rightarrow> pyval list \<Rightarrow> (exn + contract_function) \<times> 'w"
  get_transaction_count :: "'w \<Rightarrow> string \<Rightarrow> (exn + int) \<times> 'w"
  chain_id :: "'w \<Rightarrow> (exn + int) \<times> 'w"
  gas_price :: "'w \<Rightarrow> (exn + int) \<times> 'w"
  build_transaction :: "'w \<Rightarrow> contract_function \<Rightarrow> tx_params \<Rightarrow> (exn + transaction) \<times> 'w"
  sign_transaction :: "'w \<Rightarrow> transaction \<Rightarrow> string \<Rightarrow> (exn + signed_txn) \<times> 'w"
  send_raw_transaction :: "'w \<Rightarrow> raw_tx \<Rightarrow> (exn + tx_hash) \<times> 'w"
  wait_for_transaction_receipt :: "'w \<Rightarrow> tx_hash \<Rightarrow> (exn + receipt) \<times> 'w"
  to_hex :: "tx_hash \<Rightarrow> string"
  strftime_localtime :: "pyval \<Rightarrow> exn + string"

text \<open>
  A client function is a state transformer over the world and the trace that returns a
  value or an exception.
\<close>

type_synonym 'w state = "'w \<times> event list"
type_synonym ('a, 'w) prog = "'w state \<Rightarrow> (exn + 'a) \<times> 'w state"

definition return_prog :: "'a \<Rightarrow> ('a, 'w) prog" where
  "return_prog x = (\<lambda>s. (Inr x, s))"

definition raise_prog :: "exn \<Rightarrow> ('a, 'w) prog" where
  "raise_prog e = (\<lambda>s. (Inl e, s))"

definition bind_prog :: "('a, 'w) prog \<Rightarrow> ('a \<Rightarrow> ('b, 'w) prog) \<Rightarrow> ('b, 'w) prog" where
  "bind_prog m f = (\<lambda>s. case m s of (Inl e, s') \<Rightarrow> (Inl e, s') | (Inr x, s') \<Rightarrow> f x s')"

text \<open>\<^verbatim>\<open>try: m except Exception as e: h(e)\<close>\<close>

definition catch_prog :: "('a, 'w) prog \<Rightarrow> (exn \<Rightarrow> ('a, 'w) prog) \<Rightarrow> ('a, 'w) prog" where
  "catch_prog m h = (\<lambda>s. case m s of (Inl e, s') \<Rightarrow> h e s' | (Inr x, s') \<Rightarrow> (Inr x, s'))"

text \<open>A computation inside the client: no call leaves it.\<close>

definition pure_prog :: "exn + 'a \<Rightarrow> ('a, 'w) prog" where
  "pure_prog r = (\<lambda>s. (r, s))"

text \<open>A call that leaves the client: the event is appended, the world moves on.\<close>

definition rpc :: "event \<Rightarrow> ('w \<Rightarrow> (exn + 'a) \<times> 'w) \<Rightarrow> ('a, 'w) prog" where
  "rpc ev f = (\<lambda>(w, tr). case f w of (r, w') \<Rightarrow> (r, (w', tr @ [ev])))"

text \<open>Sequencing of computations that only return or raise.\<close>

definition bind_exn :: "exn + 'a \<Rightarrow> ('a \<Rightarrow> exn + 'b) \<Rightarrow> exn + 'b" where
  "bind_exn m f = (case m of Inl e \<Rightarrow> Inl e | Inr x \<Rightarrow> f x)"

section \<open>\<^verbatim>\<open>class AuditLogger\<close>\<close>

text \<open>
  Calls to \<^verbatim>\<open>logger\<close> write to the process log only and are left out; an
  \<^verbatim>\<open>except\<close> block that logs and re-raises is a handler that raises what it caught.
\<close>

text \<open>\<^verbatim>\<open>_check_authorization\<close>, lines 54-68.\<close>

definition check_authorization :: "'w gateway \<Rightarrow> audit_logger \<Rightarrow> (unit, 'w) prog" where
  "check_authorization gw self =
     catch_prog
       (bind_prog (rpc (EvCall (ContractFunction ''authorizedLoggers'' [PStr (address self)]))
                       (\<lambda>w. call_authorizedLoggers gw w (address self)))
          (\<lambda>is_authorized.
             if \<not> is_authorized then
               bind_prog (rpc (EvCall (ContractFunction ''owner'' [])) (call_owner gw))
                 (\<lambda>owner.
                    if lower (address self) \<noteq> lower owner then
                      raise_prog (ValueError (''Account '' @ address self
                                              @ '' is not authorized to log metrics''))
                    else return_prog ())
             else return_prog ()))
       (\<lambda>e. raise_prog e)"

text \<open>
  \<^verbatim>\<open>__init__\<close>, lines 36-51: everything before the authorization check. The provider
  object of line 36 is built without contacting the endpoint.
\<close>

definition init_fields ::
  "'w gateway \<Rightarrow> string \<Rightarrow> string \<Rightarrow> string \<Rightarrow> string \<Rightarrow> (audit_logger, 'w) prog" where
  "init_fields gw contract_address_arg private_key web3_provider_uri abi_path =
     bind_prog
       (catch_prog (rpc (EvOpenAbi abi_path) (\<lambda>w. open_abi gw w abi_path))
          (\<lambda>e. case e of
                  FileNotFoundError _ \<Rightarrow>
                    raise_prog (FileNotFoundError (''Contract ABI file not found: '' @ abi_path))
                | _ \<Rightarrow> raise_prog e))
       (\<lambda>abi.
     bind_prog (rpc (EvToChecksumAddress contract_address_arg)
                    (\<lambda>w. to_checksum_address gw w contract_address_arg))
       (\<lambda>caddr.
     bind_prog (rpc (EvContract caddr abi) (\<lambda>w. eth_contract gw w caddr abi))
       (\<lambda>_.
     bind_prog (rpc EvFromKey (\<lambda>w. from_key gw w private_key))
       (\<lambda>acct.
          return_prog \<lparr>contract_address = caddr, contract_abi = abi,
                       account = acct, address = acct_address acct\<rparr>))))"

text \<open>\<^verbatim>\<open>__init__\<close>, lines 23-52. An exception leaves no instance behind.\<close>

definition init ::
  "'w gateway \<Rightarrow> string \<Rightarrow> string \<Rightarrow> string \<Rightarrow> string \<Rightarrow> (audit_logger, 'w) prog" where
  "init gw contract_address_arg private_key web3_provider_uri abi_path =
     bind_prog (init_fields gw contract_address_arg private_key web3_provider_uri abi_path)
       (\<lambda>self. bind_prog (check_authorization gw self) (\<lambda>_. return_prog self))"

text \<open>\<^verbatim>\<open>_send_transaction\<close>, lines 70-112.\<close>

definition send_transaction ::
  "'w gateway \<Rightarrow> audit_logger \<Rightarrow> contract_function \<Rightarrow> int \<Rightarrow> (string, 'w) prog" where
  "send_transaction gw self function gas_limit =
     catch_prog
       (bind_prog (rpc (EvGetTransactionCount (address self))
                       (\<lambda>w. get_transaction_count gw w (address self)))
          (\<lambda>nonce.
        bind_prog (rpc EvChainId (chain_id gw))
          (\<lambda>cid.
        bind_prog (rpc EvGasPrice (gas_price gw))
          (\<lambda>price.
        bind_prog (rpc (EvBuildTransaction function
                          \<lparr>p_chainId = cid, p_gas = gas_limit, p_gasPrice = price, p_nonce = nonce\<rparr>)
                       (\<lambda>w. build_transaction gw w function
                          \<lparr>p_chainId = cid, p_gas = gas_limit, p_gasPrice = price, p_nonce = nonce\<rparr>))
          (\<lambda>txn.
        bind_prog (rpc (EvSignTransaction txn)
                       (\<lambda>w. sign_transaction gw w txn (acct_key (account self))))
          (\<lambda>signed.
        bind_prog (rpc (EvSendRawTransaction (rawTransaction signed))
                       (\<lambda>w. send_raw_transaction gw w (rawTransaction signed)))
          (\<lambda>h.
        bind_prog (rpc (EvWaitForTransactionReceipt h)
                       (\<lambda>w. wait_for_transaction_receipt gw w h))
          (\<lambda>rcpt.
             if rc_status rcpt = 1 then return_prog (to_hex gw h)
             else raise_prog (Exception (''Transaction failed: '' @ to_hex gw h))))))))))
       (\<lambda>e. case e of ContractLogicError _ \<Rightarrow> raise_prog e | _ \<Rightarrow> raise_prog e)"

text \<open>The default of the parameter \<^verbatim>\<open>gas_limit\<close>, line 70.\<close>

definition gas_limit_default :: int where
  "gas_limit_default = 300000"

text \<open>\<^verbatim>\<open>log_node_metrics\<close>, lines 114-138.\<close>

definition log_node_metrics ::
  "'w gateway \<Rightarrow> audit_logger \<Rightarrow> string \<Rightarrow> int \<Rightarrow> int \<Rightarrow> int \<Rightarrow> NodeStatus \<Rightarrow> (string, 'w) prog" where
  "log_node_metrics gw self node_id memory_usage cpu_load allocated_memory status =
     bind_prog
       (rpc (EvFunction ''logNodeMetrics''
               [PStr node_id, PInt memory_usage, PInt cpu_load, PInt allocated_memory,
                PInt (int_of_NodeStatus status)])
            (\<lambda>w. contract_functions gw w ''logNodeMetrics''
               [PStr node_id, PInt memory_usage, PInt cpu_load, PInt allocated_memory,
                PInt (int_of_NodeStatus status)]))
       (\<lambda>function. send_transaction gw self function gas_limit_default)"

text \<open>\<^verbatim>\<open>log_scaling_action\<close>, lines 140-166.\<close>

definition log_scaling_action ::
  "'w gateway \<Rightarrow> audit_logger \<Rightarrow> string \<Rightarrow> string \<Rightarrow> string \<Rightarrow> (string, 'w) prog" where
  "log_scaling_action gw self node_id action reason =
     bind_prog
       (rpc (EvFunction ''logScalingAction'' [PStr node_id, PStr action, PStr reason])
            (\<lambda>w. contract_functions gw w ''logScalingAction''
               [PStr node_id, PStr action, PStr reason]))
       (\<lambda>function. send_transaction gw self function gas_limit_default)"

text \<open>The dict literal of lines 182-190, evaluated entry by entry.\<close>

definition latest_fields :: "pyval list \<Rightarrow> exn + dict" where
  "latest_fields metrics =
     bind_exn (subscript metrics 0) (\<lambda>m0.
     bind_exn (subscript metrics 1) (\<lambda>m1.
     bind_exn (subscript metrics 2) (\<lambda>m2.
     bind_exn (subscript metrics 3) (\<lambda>m3.
     bind_exn (subscript metrics 4) (\<lambda>m4.
     bind_exn (subscript metrics 5) (\<lambda>m5.
     bind_exn (NodeStatus_of m5) (\<lambda>st.
     bind_exn (subscript metrics 6) (\<lambda>m6.
       Inr [(''nodeId'', m0), (''timestamp'', m1), (''memoryUsage'', m2), (''cpuLoad'', m3),
            (''allocatedMemory'', m4), (''status'', PStr (name_of_NodeStatus st)),
            (''scaleAction'', m6)]))))))))"

text \<open>\<^verbatim>\<open>get_latest_node_metrics\<close>, lines 168-198.\<close>

definition get_latest_node_metrics ::
  "'w gateway \<Rightarrow> audit_logger \<Rightarrow> string \<Rightarrow> (dict, 'w) prog" where
  "get_latest_node_metrics gw self node_id =
     catch_prog
       (bind_prog (rpc (EvCall (ContractFunction ''getLatestNodeMetrics'' [PStr node_id]))
                       (\<lambda>w. call_getLatestNodeMetrics gw w node_id))
          (\<lambda>metrics.
        bind_prog (pure_prog (latest_fields metrics))
          (\<lambda>result.
        bind_prog (pure_prog (bind_exn (dict_get result ''timestamp'') (strftime_localtime gw)))
          (\<lambda>dt. return_prog (dict_set result ''datetime'' (PStr dt))))))
       (\<lambda>e. raise_prog e)"

text \<open>The dict literal of lines 218-227: the formatted time is its last entry.\<close>

definition history_entry :: "'w gateway \<Rightarrow> pyval list \<Rightarrow> exn + dict" where
  "history_entry gw metrics =
     bind_exn (latest_fields metrics) (\<lambda>fields.
     bind_exn (subscript metrics 1) (\<lambda>m1.
     bind_exn (strftime_localtime gw m1) (\<lambda>dt.
       Inr (fields @ [(''datetime'', PStr dt)]))))"

text \<open>The loop of lines 216-228.\<close>

fun history_loop :: "'w gateway \<Rightarrow> pyval list list \<Rightarrow> dict list \<Rightarrow> exn + dict list" where
  "history_loop gw [] result = Inr result"
| "history_loop gw (metrics # rest) result =
     bind_exn (history_entry gw metrics) (\<lambda>entry. history_loop gw rest (result @ [entry]))"

text \<open>\<^verbatim>\<open>get_node_metrics_history\<close>, lines 200-233; the defaults of line 200.\<close>

definition start_index_default :: int where
  "start_index_default = 0"

definition count_default :: int where
  "count_default = 10"

definition get_node_metrics_history ::
  "'w gateway \<Rightarrow> audit_logger \<Rightarrow> string \<Rightarrow> int \<Rightarrow> int \<Rightarrow> (dict list, 'w) prog" where
  "get_node_metrics_history gw self node_id start_index count =
     catch_prog
       (bind_prog (rpc (EvCall (ContractFunction ''getNodeMetricsHistory''
                                  [PStr node_id, PInt start_index, PInt count]))
                       (\<lambda>w. call_getNodeMetricsHistory gw w node_id start_index count))
          (\<lambda>metrics_list. pure_prog (history_loop gw metrics_list [])))
       (\<lambda>e. raise_prog e)"

section \<open>The ledger behind the gateway\<close>

text \<open>
  Modelled from the spec: the ledger network and the contract deployed on it, which the
  repository's client only reaches through the binding library. The ledger keeps, per
  node, the append-only sequence of \<open>NodeMetricsRecord\<close>s (section 3), the authorization
  registry and its owner (section 4.3), and the confirmed transactions of every identity;
  \<open>getNonce\<close> is the count of confirmed transactions from an address, and the ledger
  accepts exactly one transaction per nonce (sections 4.2 and 5). A broadcast is executed
  at once, so the receipt is there when the client asks for it.
\<close>

record node_metrics =
  nm_nodeId :: string
  nm_timestamp :: int
  nm_memoryUsage :: int
  nm_cpuLoad :: int
  nm_allocatedMemory :: int
  nm_status :: int
  nm_scaleAction :: string

record ledger =
  l_owner :: string
  l_authorized :: "string list"
  l_history :: "string \<Rightarrow> node_metrics list"
  l_actions :: "(string \<times> string \<times> string \<times> int) list"
  l_confirmed :: "(string \<times> int) list"
  l_receipts :: "(tx_hash \<times> int) list"
  l_clock :: int

text \<open>Modelled from the spec: the address is a pure function of the key (section 4.1).\<close>

definition derive_address :: "string \<Rightarrow> string" where
  "derive_address k = ''0x'' @ k"

text \<open>Modelled from the spec: a record as the tuple the contract returns (section 6).\<close>

definition tuple_of :: "node_metrics \<Rightarrow> pyval list" where
  "tuple_of r =
     [PStr (nm_nodeId r), PInt (nm_timestamp r), PInt (nm_memoryUsage r), PInt (nm_cpuLoad r),
      PInt (nm_allocatedMemory r), PInt (nm_status r), PStr (nm_scaleAction r)]"

text \<open>
  Modelled from the spec: what the contract returns for the latest record of a node, the
  empty tuple when the node has none (section 4.5).
\<close>

definition latest_tuple :: "node_metrics list \<Rightarrow> pyval list" where
  "latest_tuple rs = (case rs of [] \<Rightarrow> [] | _ # _ \<Rightarrow> tuple_of (last rs))"

text \<open>Modelled from the spec: the count of confirmed transactions from a canonical address.\<close>

definition count_from :: "ledger \<Rightarrow> string \<Rightarrow> int" where
  "count_from L s = int (length (filter (\<lambda>(s', n). s' = s) (l_confirmed L)))"


text \<open>Modelled from the spec: who may write, the registry or its owner (section 4.3).\<close>

definition is_writer :: "ledger \<Rightarrow> string \<Rightarrow> bool" where
  "is_writer L sender = (sender \<in> set (map lower (l_authorized L)) \<or> sender = lower (l_owner L))"

text \<open>
  Modelled from the spec: the two write methods of the contract (section 6). A record
  that enters the history satisfies the data model of section 3; \<open>None\<close> is a call the
  contract rejects.
\<close>

definition apply_call :: "ledger \<Rightarrow> string \<Rightarrow> contract_function \<Rightarrow> ledger option" where
  "apply_call L sender f =
     (if \<not> is_writer L sender then None
      else if fn_name f = ''logNodeMetrics'' then
        (case fn_args f of
           [PStr n, PInt m, PInt c, PInt a, PInt st] \<Rightarrow>
             if 0 \<le> m \<and> 0 \<le> c \<and> c \<le> 100 \<and> 0 \<le> a \<and> 0 \<le> st \<and> st \<le> 2 then
               Some (L\<lparr>l_history := (l_history L)
                         (n := l_history L n @
                            [\<lparr>nm_nodeId = n, nm_timestamp = l_clock L, nm_memoryUsage = m,
                              nm_cpuLoad = c, nm_allocatedMemory = a, nm_status = st,
                              nm_scaleAction = []\<rparr>])\<rparr>)
             else None
         | _ \<Rightarrow> None)
      else if fn_name f = ''logScalingAction'' then
        (case fn_args f of
           [PStr n, PStr act, PStr reason] \<Rightarrow>
             Some (L\<lparr>l_actions := l_actions L @ [(n, act, reason, l_clock L)]\<rparr>)
         | _ \<Rightarrow> None)
      else None)"

text \<open>
  Modelled from the spec: broadcast. A transaction whose nonce is not the sender's count
  is rejected; an accepted one is confirmed, with receipt status 1 when the contract
  executed the call and 0 when it did not.
\<close>

definition ledger_send :: "ledger \<Rightarrow> raw_tx \<Rightarrow> (exn + tx_hash) \<times> ledger" where
  "ledger_send L raw =
     (let txn = raw_txn raw; sender = lower (derive_address (raw_key raw)) in
      if tx_nonce txn \<noteq> count_from L sender then
        (Inl (Other ''ValueError'' ''nonce rejected''), L)
      else
        let h = TxHash sender (tx_nonce txn);
            outcome = apply_call L sender (tx_data txn);
            L1 = (case outcome of None \<Rightarrow> L | Some L' \<Rightarrow> L');
            st = (case outcome of None \<Rightarrow> 0 | Some _ \<Rightarrow> 1)
        in (Inr h, L1\<lparr>l_confirmed := l_confirmed L @ [(sender, tx_nonce txn)],
                      l_receipts := (h, st) # l_receipts L,
                      l_clock := l_clock L + 1\<rparr>))"

text \<open>Modelled from the spec: transactions of any identity arriving from elsewhere.\<close>

definition external_sends :: "ledger \<Rightarrow> raw_tx list \<Rightarrow> ledger" where
  "external_sends L raws = foldl (\<lambda>L' raw. snd (ledger_send L' raw)) L raws"

text \<open>Decimal digits of a natural number, for rendering hashes and times.\<close>

function digits :: "nat \<Rightarrow> string" where
  "digits n = (if n < 10 then [char_of (48 + n)] else digits (n div 10) @ [char_of (48 + n mod 10)])"
  by pat_completeness auto
termination
  by (relation "measure id") auto

text \<open>
  Modelled from the spec: the gateway of section 4.2 over this ledger, with the contract's
  read methods of section 6: the latest record of a node or the empty tuple when there is
  none (section 4.5), and the history from \<open>start\<close>, at most \<open>count\<close> records, oldest first.
\<close>

definition ledger_gateway :: "ledger gateway" where
  "ledger_gateway =
     \<lparr>open_abi = (\<lambda>L path. (Inr ''[]'', L)),
      to_checksum_address = (\<lambda>L a. (Inr a, L)),
      eth_contract = (\<lambda>L a abi. (Inr (), L)),
      from_key = (\<lambda>L k. (Inr \<lparr>acct_key = k, acct_address = derive_address k\<rparr>, L)),
      call_authorizedLoggers = (\<lambda>L a. (Inr (lower a \<in> set (map lower (l_authorized L))), L)),
      call_owner = (\<lambda>L. (Inr (l_owner L), L)),
      call_getLatestNodeMetrics =
        (\<lambda>L n. (Inr (latest_tuple (l_history L n)), L)),
      call_getNodeMetricsHistory =
        (\<lambda>L n start count.
           if start < 0 \<or> count < 0 then (Inl (Other ''ValidationError'' ''not a uint256''), L)
           else (Inr (map tuple_of (take (nat count) (drop (nat start) (l_history L n)))), L)),
      contract_functions = (\<lambda>L name args. (Inr (ContractFunction name args), L)),
      get_transaction_count = (\<lambda>L a. (Inr (count_from L (lower a)), L)),
      chain_id = (\<lambda>L. (Inr 1337, L)),
      gas_price = (\<lambda>L. (Inr 1, L)),
      build_transaction =
        (\<lambda>L f p. (Inr \<lparr>tx_data = f, tx_chainId = p_chainId p, tx_gas = p_gas p,
                       tx_gasPrice = p_gasPrice p, tx_nonce = p_nonce p\<rparr>, L)),
      sign_transaction = (\<lambda>L t k. (Inr \<lparr>rawTransaction = RawTx t k\<rparr>, L)),
      send_raw_transaction = ledger_send,
      wait_for_transaction_receipt =
        (\<lambda>L h. case map_of (l_receipts L) h of
                  None \<Rightarrow> (Inl (Other ''TimeExhausted'' ''not in the chain after 120 seconds''), L)
                | Some st \<Rightarrow> (Inr \<lparr>rc_status = st\<rparr>, L)),
      to_hex = (\<lambda>h. case h of TxHash s n \<Rightarrow> s @ ''/'' @ digits (nat n)),
      strftime_localtime =
        (\<lambda>v. case v of
                PInt t \<Rightarrow> if 0 \<le> t then Inr (digits (nat t))
                          else Inl (Other ''OSError'' ''timestamp out of range'')
              | PBool b \<Rightarrow> Inr (digits (if b then 1 else 0))
              | _ \<Rightarrow> Inl (Other ''TypeError'' ''an integer is required''))\<rparr>"



text \<open>
  Modelled from the spec: a stored record as section 3 has it, with a status among the
  three of the enum and a time the clock can render.
\<close>

definition valid_record :: "node_metrics \<Rightarrow> bool" where
  "valid_record r = (0 \<le> nm_status r \<and> nm_status r \<le> 2 \<and> 0 \<le> nm_timestamp r)"

text \<open>The record one expects to read back for a stored record with a valid status.\<close>

definition record_dict :: "node_metrics \<Rightarrow> dict" where
  "record_dict r =
     [(''nodeId'', PStr (nm_nodeId r)), (''timestamp'', PInt (nm_timestamp r)),
      (''memoryUsage'', PInt (nm_memoryUsage r)), (''cpuLoad'', PInt (nm_cpuLoad r)),
      (''allocatedMemory'', PInt (nm_allocatedMemory r)),
      (''status'', PStr (if nm_status r = 0 then ''Normal''
                         else if nm_status r = 1 then ''Scaling'' else ''Alert'')),
      (''scaleAction'', PStr (nm_scaleAction r)),
      (''datetime'', PStr (digits (nat (nm_timestamp r))))]"

text \<open>A ledger to run the client on: an owner, one approved logger, nothing recorded.\<close>

definition example_ledger :: ledger where
  "example_ledger =
     \<lparr>l_owner = ''0xA1'', l_authorized = [''0xb2''], l_history = (\<lambda>_. []), l_actions = [],
      l_confirmed = [], l_receipts = [], l_clock = 1700000000\<rparr>"

text \<open>A client of that ledger: the approved logger with key \<open>b2\<close>.\<close>

definition example_client :: audit_logger where
  "example_client =
     \<lparr>contract_address = ''0xC0'', contract_abi = ''[]'',
      account = \<lparr>acct_key = ''b2'', acct_address = ''0xb2''\<rparr>, address = ''0xb2''\<rparr>"

text \<open>Three stored records of one node, oldest first, and a ledger that holds them.\<close>

definition example_records :: "node_metrics list" where
  "example_records =
     [\<lparr>nm_nodeId = ''node-1'', nm_timestamp = 1700000001, nm_memoryUsage = 512, nm_cpuLoad = 35,
       nm_allocatedMemory = 1024, nm_status = 0, nm_scaleAction = []\<rparr>,
      \<lparr>nm_nodeId = ''node-1'', nm_timestamp = 1700000002, nm_memoryUsage = 900, nm_cpuLoad = 91,
       nm_allocatedMemory = 1024, nm_status = 2, nm_scaleAction = []\<rparr>,
      \<lparr>nm_nodeId = ''node-1'', nm_timestamp = 1700000003, nm_memoryUsage = 700, nm_cpuLoad = 60,
       nm_allocatedMemory = 2048, nm_status = 1, nm_scaleAction = ''scale_up''\<rparr>]"

definition recorded_ledger :: ledger where
  "recorded_ledger =
     example_ledger\<lparr>l_history := (\<lambda>n. if n = ''node-1'' then example_records else [])\<rparr>"

text \<open>A ledger whose only record of a node carries a status outside the enum.\<close>

definition corrupt_ledger :: ledger where
  "corrupt_ledger =
     example_ledger\<lparr>l_history :=
       (\<lambda>n. [\<lparr>nm_nodeId = n, nm_timestamp = 1700000001, nm_memoryUsage = 512, nm_cpuLoad = 35,
               nm_allocatedMemory = 1024, nm_status = 7, nm_scaleAction = []\<rparr>])\<rparr>"

text \<open>A gateway on which no receipt arrives before the wait gives up.\<close>

definition stalled_gateway :: "ledger gateway" where
  "stalled_gateway =
     ledger_gateway\<lparr>wait_for_transaction_receipt :=
       (\<lambda>L h. (Inl (Other ''TimeExhausted'' ''not in the chain after 120 seconds''), L))\<rparr>"

text \<open>A gateway whose contract rejects the read of the latest record.\<close>

definition reverting_gateway :: "ledger gateway" where
  "reverting_gateway =
     ledger_gateway\<lparr>call_getLatestNodeMetrics :=
       (\<lambda>L n. (Inl (ContractLogicError ''execution reverted: no metrics for this node''), L))\<rparr>"


text \<open>
  Modelled from the spec: the same ledger when other processes share it (section 5). The
  world is the ledger together with the batches of transactions that others will have
  sent by the time of each coming call; before each call of the client the next batch
  arrives.
\<close>

type_synonym shared = "ledger \<times> raw_tx list list"

definition arrive :: "shared \<Rightarrow> shared" where
  "arrive w = (case snd w of [] \<Rightarrow> w | ext # rest \<Rightarrow> (external_sends (fst w) ext, rest))"







section \<open>Auxiliary facts\<close>

lemmas prog_defs =
  bind_prog_def catch_prog_def rpc_def return_prog_def raise_prog_def pure_prog_def

declare digits.simps [simp del]



lemma init_fields_writes:
  assumes "init_fields gw ca pk uri path (w0, tr0) = (r, (w1, tr1))"
  shows "writes tr1 = writes tr0"
  using assms
  by (auto simp: init_fields_def prog_defs writes_def split: prod.splits sum.splits exn.splits)

lemma latest_fields_bad_status:
  assumes "5 < length metrics" and "metrics ! 5 = PInt n" and "n \<noteq> 0" "n \<noteq> 1" "n \<noteq> 2"
  shows "latest_fields metrics = Inl (NotAValidNodeStatus (PInt n))"
  using assms by (auto simp: latest_fields_def subscript_def bind_exn_def)

lemma history_loop_bad_status:
  assumes "metrics \<in> set ml" and "5 < length metrics" and "metrics ! 5 = PInt n"
    and "n \<noteq> 0" "n \<noteq> 1" "n \<noteq> 2"
  shows "\<exists>e. history_loop gw ml acc = Inl e"
  using assms
proof (induction ml arbitrary: acc)
  case Nil
  then show ?case by simp
next
  case (Cons x xs)
  show ?case
  proof (cases "history_entry gw x")
    case (Inl e)
    then show ?thesis by (simp add: bind_exn_def)
  next
    case (Inr d)
    have "x \<noteq> metrics"
    proof
      assume "x = metrics"
      with Cons.prems have "latest_fields x = Inl (NotAValidNodeStatus (PInt n))"
        by (simp add: latest_fields_bad_status)
      with Inr show False by (simp add: history_entry_def bind_exn_def)
    qed
    with Cons.prems have "metrics \<in> set xs" by auto
    with Cons.IH Cons.prems obtain e where "history_loop gw xs (acc @ [d]) = Inl e" by blast
    with Inr show ?thesis by (simp add: bind_exn_def)
  qed
qed

subsection \<open>The ledger\<close>

lemma ledger_gateway_simps:
  "open_abi ledger_gateway L path = (Inr ''[]'', L)"
  "to_checksum_address ledger_gateway L a = (Inr a, L)"
  "eth_contract ledger_gateway L a abi = (Inr (), L)"
  "from_key ledger_gateway L k = (Inr \<lparr>acct_key = k, acct_address = derive_address k\<rparr>, L)"
  "call_authorizedLoggers ledger_gateway L a = (Inr (lower a \<in> set (map lower (l_authorized L))), L)"
  "call_owner ledger_gateway L = (Inr (l_owner L), L)"
  "call_getLatestNodeMetrics ledger_gateway L n = (Inr (latest_tuple (l_history L n)), L)"
  "call_getNodeMetricsHistory ledger_gateway L n start count =
     (if start < 0 \<or> count < 0 then (Inl (Other ''ValidationError'' ''not a uint256''), L)
      else (Inr (map tuple_of (take (nat count) (drop (nat start) (l_history L n)))), L))"
  "contract_functions ledger_gateway L name args = (Inr (ContractFunction name args), L)"
  "get_transaction_count ledger_gateway L a = (Inr (count_from L (lower a)), L)"
  "chain_id ledger_gateway L = (Inr 1337, L)"
  "gas_price ledger_gateway L = (Inr 1, L)"
  "build_transaction ledger_gateway L f p =
     (Inr \<lparr>tx_data = f, tx_chainId = p_chainId p, tx_gas = p_gas p,
           tx_gasPrice = p_gasPrice p, tx_nonce = p_nonce p\<rparr>, L)"
  "sign_transaction ledger_gateway L txn k = (Inr \<lparr>rawTransaction = RawTx txn k\<rparr>, L)"
  "send_raw_transaction ledger_gateway = ledger_send"
  "wait_for_transaction_receipt ledger_gateway L h =
     (case map_of (l_receipts L) h of
        None \<Rightarrow> (Inl (Other ''TimeExhausted'' ''not in the chain after 120 seconds''), L)
      | Some st \<Rightarrow> (Inr \<lparr>rc_status = st\<rparr>, L))"
  "strftime_localtime ledger_gateway (PInt t) =
     (if 0 \<le> t then Inr (digits (nat t)) else Inl (Other ''OSError'' ''timestamp out of range''))"
  by (simp_all add: ledger_gateway_def)

lemma l_confirmed_ledger_send:
  "l_confirmed (snd (ledger_send L raw)) =
     (if tx_nonce (raw_txn raw) = count_from L (lower (derive_address (raw_key raw)))
      then l_confirmed L @ [(lower (derive_address (raw_key raw)), tx_nonce (raw_txn raw))]
      else l_confirmed L)"
  by (simp add: ledger_send_def Let_def)

lemma count_from_ledger_send:
  "count_from (snd (ledger_send L raw)) s =
     (if tx_nonce (raw_txn raw) = count_from L (lower (derive_address (raw_key raw)))
         \<and> s = lower (derive_address (raw_key raw))
      then count_from L s + 1 else count_from L s)"
  by (simp add: count_from_def[of "snd (ledger_send L raw)"] l_confirmed_ledger_send)
     (simp add: count_from_def)

lemma count_from_mono: "count_from L s \<le> count_from (snd (ledger_send L raw)) s"
  by (simp add: count_from_ledger_send)


lemma count_from_external_sends: "count_from L s \<le> count_from (external_sends L raws) s"
proof (induction raws arbitrary: L)
  case Nil
  then show ?case by (simp add: external_sends_def)
next
  case (Cons raw raws)
  have "count_from L s \<le> count_from (snd (ledger_send L raw)) s" by (rule count_from_mono)
  also have "\<dots> \<le> count_from (external_sends (snd (ledger_send L raw)) raws) s" by (rule Cons.IH)
  finally show ?case by (simp add: external_sends_def)
qed







lemma history_entry_tuple:
  assumes "valid_record r"
  shows "history_entry ledger_gateway (tuple_of r) = Inr (record_dict r)"
proof -
  from assms have "nm_status r = 0 \<or> nm_status r = 1 \<or> nm_status r = 2"
    by (auto simp: valid_record_def)
  moreover from assms have "0 \<le> nm_timestamp r" by (simp add: valid_record_def)
  ultimately show ?thesis
    by (auto simp: history_entry_def latest_fields_def tuple_of_def subscript_def bind_exn_def
          record_dict_def ledger_gateway_simps)
qed

lemma history_loop_map:
  assumes "list_all valid_record rs"
  shows "history_loop ledger_gateway (map tuple_of rs) acc = Inr (acc @ map record_dict rs)"
  using assms
  by (induction rs arbitrary: acc) (simp_all add: history_entry_tuple bind_exn_def)

lemma list_all_slice: "list_all P xs \<Longrightarrow> list_all P (take n (drop m xs))"
  by (auto simp: list_all_iff dest: in_set_takeD in_set_dropD)

text \<open>A submission only ever appends to the trace.\<close>

lemma send_transaction_extends:
  "\<exists>r w' rest. send_transaction gw self f g (w, tr) = (r, (w', tr @ rest))"
  by (auto simp: send_transaction_def prog_defs split: prod.splits sum.splits exn.splits)

text \<open>The stored records stay valid under every broadcast.\<close>

lemma apply_call_history:
  assumes "apply_call L sender f = Some L'"
  shows "l_clock L' = l_clock L
       \<and> (l_history L' n = l_history L n
          \<or> (\<exists>r. l_history L' n = l_history L n @ [r] \<and> 0 \<le> nm_status r \<and> nm_status r \<le> 2
                  \<and> nm_timestamp r = l_clock L))"
  using assms
  by (auto simp: apply_call_def split: if_splits list.splits pyval.splits)

lemma valid_history_ledger_send:
  assumes "0 \<le> l_clock L" and "list_all valid_record (l_history L n)"
  shows "0 \<le> l_clock (snd (ledger_send L raw))
       \<and> list_all valid_record (l_history (snd (ledger_send L raw)) n)"
proof (cases "apply_call L (lower (derive_address (raw_key raw))) (tx_data (raw_txn raw))")
  case None
  with assms show ?thesis by (simp add: ledger_send_def Let_def)
next
  case (Some L')
  from apply_call_history[OF Some, of n] assms show ?thesis
    by (auto simp: ledger_send_def Let_def Some valid_record_def)
qed

lemma valid_history_external_sends:
  assumes "0 \<le> l_clock L" and "list_all valid_record (l_history L n)"
  shows "0 \<le> l_clock (external_sends L raws)
       \<and> list_all valid_record (l_history (external_sends L raws) n)"
  using assms
proof (induction raws arbitrary: L)
  case Nil
  then show ?case by (simp add: external_sends_def)
next
  case (Cons raw raws)
  from valid_history_ledger_send[OF Cons.prems, of raw]
  have "0 \<le> l_clock (external_sends (snd (ledger_send L raw)) raws)
       \<and> list_all valid_record (l_history (external_sends (snd (ledger_send L raw)) raws) n)"
    using Cons.IH by blast
  then show ?case by (simp add: external_sends_def)
qed








subsection \<open>The shared ledger\<close>


lemma arrive_external: "\<exists>ext. fst (arrive w) = external_sends (fst w) ext"
proof (cases "snd w")
  case Nil
  then have "fst (arrive w) = external_sends (fst w) []" by (simp add: arrive_def external_sends_def)
  then show ?thesis by blast
next
  case (Cons ext rest)
  then have "fst (arrive w) = external_sends (fst w) ext" by (simp add: arrive_def)
  then show ?thesis by blast
qed

lemma count_from_arrive: "count_from (fst w) s \<le> count_from (fst (arrive w)) s"
  using arrive_external[of w] count_from_external_sends by auto


lemma count_from_arrive5:
  "count_from (fst w) s \<le> count_from (fst (arrive (arrive (arrive (arrive (arrive w)))))) s"
proof -
  have "count_from (fst w) s \<le> count_from (fst (arrive w)) s" by (rule count_from_arrive)
  also have "\<dots> \<le> count_from (fst (arrive (arrive w))) s" by (rule count_from_arrive)
  also have "\<dots> \<le> count_from (fst (arrive (arrive (arrive w)))) s" by (rule count_from_arrive)
  also have "\<dots> \<le> count_from (fst (arrive (arrive (arrive (arrive w))))) s"
    by (rule count_from_arrive)
  also have "\<dots> \<le> count_from (fst (arrive (arrive (arrive (arrive (arrive w)))))) s"
    by (rule count_from_arrive)
  finally show ?thesis .
qed





subsection \<open>The examples\<close>

lemmas example_defs = example_ledger_def example_client_def derive_address_def lower_def lower_char_def


lemma stalled_gateway_simps:
  "get_transaction_count stalled_gateway = get_transaction_count ledger_gateway"
  "chain_id stalled_gateway = chain_id ledger_gateway"
  "gas_price stalled_gateway = gas_price ledger_gateway"
  "build_transaction stalled_gateway = build_transaction ledger_gateway"
  "sign_transaction stalled_gateway = sign_transaction ledger_gateway"
  "send_raw_transaction stalled_gateway = ledger_send"
  "wait_for_transaction_receipt stalled_gateway L h =
     (Inl (Other ''TimeExhausted'' ''not in the chain after 120 seconds''), L)"
  by (simp_all add: stalled_gateway_def ledger_gateway_def)











section \<open>The authorization gate\<close>

text \<open>
  C1. Once the fields of the instance are set, construction stands or falls with the
  gate. If the registry answers that the address is no approved logger and the owner it
  names differs from the address under \<open>lower\<close>, construction raises the \<open>ValueError\<close> of
  line 65, no instance is returned, and the trace has gained the two reads and no
  broadcast. If the registry approves the address, or the owner equals it under \<open>lower\<close>,
  construction returns the instance.
\<close>

theorem authorization_gate:
  assumes "init_fields gw ca pk uri path (w, tr) = (Inr self, (w', tr'))"
  shows "(call_authorizedLoggers gw w' (address self) = (Inr False, wa)
            \<and> call_owner gw wa = (Inr owner, wb) \<and> lower (address self) \<noteq> lower owner
          \<longrightarrow> init gw ca pk uri path (w, tr) =
                (Inl (ValueError (''Account '' @ address self @ '' is not authorized to log metrics'')),
                 (wb, tr' @ [EvCall (ContractFunction ''authorizedLoggers'' [PStr (address self)]),
                             EvCall (ContractFunction ''owner'' [])]))
              \<and> writes (tr' @ [EvCall (ContractFunction ''authorizedLoggers'' [PStr (address self)]),
                               EvCall (ContractFunction ''owner'' [])]) = writes tr)
       \<and> (call_authorizedLoggers gw w' (address self) = (Inr True, wa)
          \<longrightarrow> init gw ca pk uri path (w, tr) =
                (Inr self,
                 (wa, tr' @ [EvCall (ContractFunction ''authorizedLoggers'' [PStr (address self)])])))
       \<and> (call_authorizedLoggers gw w' (address self) = (Inr False, wa)
            \<and> call_owner gw wa = (Inr owner, wb) \<and> lower (address self) = lower owner
          \<longrightarrow> init gw ca pk uri path (w, tr) =
                (Inr self,
                 (wb, tr' @ [EvCall (ContractFunction ''authorizedLoggers'' [PStr (address self)]),
                             EvCall (ContractFunction ''owner'' [])])))"
  using assms init_fields_writes[OF assms]
  by (simp add: init_def check_authorization_def prog_defs writes_def)

theorem authorization_gate_witness:
  "init ledger_gateway ''0xC0'' ''c3'' ''http://localhost:8545'' ''abi.json'' (example_ledger, []) =
     (Inl (ValueError ''Account 0xc3 is not authorized to log metrics''),
      (example_ledger,
       [EvOpenAbi ''abi.json'', EvToChecksumAddress ''0xC0'', EvContract ''0xC0'' ''[]'', EvFromKey,
        EvCall (ContractFunction ''authorizedLoggers'' [PStr ''0xc3'']),
        EvCall (ContractFunction ''owner'' [])]))
   \<and> writes [EvOpenAbi ''abi.json'', EvToChecksumAddress ''0xC0'', EvContract ''0xC0'' ''[]'', EvFromKey,
        EvCall (ContractFunction ''authorizedLoggers'' [PStr ''0xc3'']),
        EvCall (ContractFunction ''owner'' [])] = []
   \<and> fst (init ledger_gateway ''0xC0'' ''b2'' ''http://localhost:8545'' ''abi.json'' (example_ledger, []))
       = Inr example_client
   \<and> fst (init ledger_gateway ''0xC0'' ''a1'' ''http://localhost:8545'' ''abi.json'' (example_ledger, []))
       = Inr \<lparr>contract_address = ''0xC0'', contract_abi = ''[]'',
              account = \<lparr>acct_key = ''a1'', acct_address = ''0xa1''\<rparr>, address = ''0xa1''\<rparr>"
proof -
  have fields: "\<And>k. init_fields ledger_gateway ''0xC0'' k ''http://localhost:8545'' ''abi.json''
                  (example_ledger, []) =
                (Inr \<lparr>contract_address = ''0xC0'', contract_abi = ''[]'',
                      account = \<lparr>acct_key = k, acct_address = ''0x'' @ k\<rparr>, address = ''0x'' @ k\<rparr>,
                 (example_ledger,
                  [EvOpenAbi ''abi.json'', EvToChecksumAddress ''0xC0'', EvContract ''0xC0'' ''[]'',
                   EvFromKey]))"
    by (simp add: init_fields_def prog_defs ledger_gateway_simps derive_address_def)
  note gate = authorization_gate[OF fields, where wa = example_ledger and wb = example_ledger
      and owner = "''0xA1''"]
  have c3: "call_authorizedLoggers ledger_gateway example_ledger ''0xc3'' = (Inr False, example_ledger)"
    and b2: "call_authorizedLoggers ledger_gateway example_ledger ''0xb2'' = (Inr True, example_ledger)"
    and a1: "call_authorizedLoggers ledger_gateway example_ledger ''0xa1'' = (Inr False, example_ledger)"
    and ow: "call_owner ledger_gateway example_ledger = (Inr ''0xA1'', example_ledger)"
    and ne: "lower ''0xc3'' \<noteq> lower ''0xA1''" and eq: "lower ''0xa1'' = lower ''0xA1''"
    by (simp_all add: ledger_gateway_simps example_defs)
  from gate[of "''c3''"] c3 ow ne
  have r1: "init ledger_gateway ''0xC0'' ''c3'' ''http://localhost:8545'' ''abi.json'' (example_ledger, []) =
     (Inl (ValueError ''Account 0xc3 is not authorized to log metrics''),
      (example_ledger,
       [EvOpenAbi ''abi.json'', EvToChecksumAddress ''0xC0'', EvContract ''0xC0'' ''[]'', EvFromKey,
        EvCall (ContractFunction ''authorizedLoggers'' [PStr ''0xc3'']),
        EvCall (ContractFunction ''owner'' [])]))"
    and r2: "writes [EvOpenAbi ''abi.json'', EvToChecksumAddress ''0xC0'', EvContract ''0xC0'' ''[]'', EvFromKey,
        EvCall (ContractFunction ''authorizedLoggers'' [PStr ''0xc3'']),
        EvCall (ContractFunction ''owner'' [])] = []"
    by (simp_all add: writes_def)
  from gate[of "''b2''"] b2
  have r3: "fst (init ledger_gateway ''0xC0'' ''b2'' ''http://localhost:8545'' ''abi.json'' (example_ledger, []))
       = Inr example_client"
    by (simp add: example_client_def)
  from gate[of "''a1''"] a1 ow eq
  have r4: "fst (init ledger_gateway ''0xC0'' ''a1'' ''http://localhost:8545'' ''abi.json'' (example_ledger, []))
       = Inr \<lparr>contract_address = ''0xC0'', contract_abi = ''[]'',
              account = \<lparr>acct_key = ''a1'', acct_address = ''0xa1''\<rparr>, address = ''0xa1''\<rparr>"
    by simp
  from r1 r2 r3 r4 show ?thesis by blast
qed

section \<open>Submission\<close>






text \<open>
  C3. When every step answers, a submission makes these calls in this order and no
  other: the nonce, the chain id and the gas price are read from the gateway, the
  transaction is built from the call and those three values and the given gas limit, it
  is signed with the key of the identity, broadcast, and its receipt awaited. Receipt
  status 1 returns the hash; any other status, 0 among them, raises the exception of
  line 105. Both write calls submit with the default gas limit 300000.
\<close>

theorem send_transaction_sequence:
  assumes "get_transaction_count gw w0 (address self) = (Inr nonce, w1)"
    and "chain_id gw w1 = (Inr cid, w2)"
    and "gas_price gw w2 = (Inr price, w3)"
    and "build_transaction gw w3 f
           \<lparr>p_chainId = cid, p_gas = gas_limit, p_gasPrice = price, p_nonce = nonce\<rparr> = (Inr txn, w4)"
    and "sign_transaction gw w4 txn (acct_key (account self)) = (Inr signed, w5)"
    and "send_raw_transaction gw w5 (rawTransaction signed) = (Inr h, w6)"
    and "wait_for_transaction_receipt gw w6 h = (Inr rcpt, w7)"
  shows "send_transaction gw self f gas_limit (w0, tr) =
           (if rc_status rcpt = 1 then Inr (to_hex gw h)
            else Inl (Exception (''Transaction failed: '' @ to_hex gw h)),
            (w7, tr @ [EvGetTransactionCount (address self), EvChainId, EvGasPrice,
                       EvBuildTransaction f
                         \<lparr>p_chainId = cid, p_gas = gas_limit, p_gasPrice = price, p_nonce = nonce\<rparr>,
                       EvSignTransaction txn, EvSendRawTransaction (rawTransaction signed),
                       EvWaitForTransactionReceipt h]))
       \<and> (\<forall>w tr' node_id action reason.
             contract_functions gw w ''logScalingAction'' [PStr node_id, PStr action, PStr reason]
               = (Inr f, w0)
             \<longrightarrow> log_scaling_action gw self node_id action reason (w, tr')
                 = send_transaction gw self f 300000
                     (w0, tr' @ [EvFunction ''logScalingAction'' [PStr node_id, PStr action, PStr reason]]))
       \<and> (\<forall>w tr' node_id m c a st.
             contract_functions gw w ''logNodeMetrics''
               [PStr node_id, PInt m, PInt c, PInt a, PInt (int_of_NodeStatus st)] = (Inr f, w0)
             \<longrightarrow> log_node_metrics gw self node_id m c a st (w, tr')
                 = send_transaction gw self f 300000
                     (w0, tr' @ [EvFunction ''logNodeMetrics''
                        [PStr node_id, PInt m, PInt c, PInt a, PInt (int_of_NodeStatus st)]]))"
proof -
  have seq: "send_transaction gw self f gas_limit (w0, tr) =
           (if rc_status rcpt = 1 then Inr (to_hex gw h)
            else Inl (Exception (''Transaction failed: '' @ to_hex gw h)),
            (w7, tr @ [EvGetTransactionCount (address self), EvChainId, EvGasPrice,
                       EvBuildTransaction f
                         \<lparr>p_chainId = cid, p_gas = gas_limit, p_gasPrice = price, p_nonce = nonce\<rparr>,
                       EvSignTransaction txn, EvSendRawTransaction (rawTransaction signed),
                       EvWaitForTransactionReceipt h]))"
    using assms by (simp add: send_transaction_def prog_defs)
  have a: "\<And>w tr' node_id action reason.
             contract_functions gw w ''logScalingAction'' [PStr node_id, PStr action, PStr reason]
               = (Inr f, w0)
             \<Longrightarrow> log_scaling_action gw self node_id action reason (w, tr')
                 = send_transaction gw self f 300000
                     (w0, tr' @ [EvFunction ''logScalingAction'' [PStr node_id, PStr action, PStr reason]])"
    by (simp add: log_scaling_action_def gas_limit_default_def bind_prog_def rpc_def)
  have b: "\<And>w tr' node_id m c a st.
             contract_functions gw w ''logNodeMetrics''
               [PStr node_id, PInt m, PInt c, PInt a, PInt (int_of_NodeStatus st)] = (Inr f, w0)
             \<Longrightarrow> log_node_metrics gw self node_id m c a st (w, tr')
                 = send_transaction gw self f 300000
                     (w0, tr' @ [EvFunction ''logNodeMetrics''
                        [PStr node_id, PInt m, PInt c, PInt a, PInt (int_of_NodeStatus st)]])"
    by (simp add: log_node_metrics_def gas_limit_default_def bind_prog_def rpc_def)
  from seq a b show ?thesis by blast
qed

theorem send_transaction_sequence_witness:
  "send_transaction ledger_gateway example_client
      (ContractFunction ''logScalingAction'' [PStr ''node-1'', PStr ''scale_up'', PStr ''high load''])
      300000 (example_ledger, []) =
     (Inr (to_hex ledger_gateway (TxHash ''0xb2'' 0)),
      (snd (ledger_send example_ledger
         (RawTx \<lparr>tx_data = ContractFunction ''logScalingAction''
                              [PStr ''node-1'', PStr ''scale_up'', PStr ''high load''],
                  tx_chainId = 1337, tx_gas = 300000, tx_gasPrice = 1, tx_nonce = 0\<rparr> ''b2'')),
       [EvGetTransactionCount ''0xb2'', EvChainId, EvGasPrice,
        EvBuildTransaction
          (ContractFunction ''logScalingAction'' [PStr ''node-1'', PStr ''scale_up'', PStr ''high load''])
          \<lparr>p_chainId = 1337, p_gas = 300000, p_gasPrice = 1, p_nonce = 0\<rparr>,
        EvSignTransaction
          \<lparr>tx_data = ContractFunction ''logScalingAction''
                        [PStr ''node-1'', PStr ''scale_up'', PStr ''high load''],
            tx_chainId = 1337, tx_gas = 300000, tx_gasPrice = 1, tx_nonce = 0\<rparr>,
        EvSendRawTransaction
          (RawTx \<lparr>tx_data = ContractFunction ''logScalingAction''
                              [PStr ''node-1'', PStr ''scale_up'', PStr ''high load''],
                   tx_chainId = 1337, tx_gas = 300000, tx_gasPrice = 1, tx_nonce = 0\<rparr> ''b2''),
        EvWaitForTransactionReceipt (TxHash ''0xb2'' 0)]))
   \<and> log_scaling_action ledger_gateway example_client ''node-1'' ''scale_up'' ''high load''
         (example_ledger, []) =
       send_transaction ledger_gateway example_client
         (ContractFunction ''logScalingAction'' [PStr ''node-1'', PStr ''scale_up'', PStr ''high load''])
         300000
         (example_ledger,
          [EvFunction ''logScalingAction'' [PStr ''node-1'', PStr ''scale_up'', PStr ''high load'']])"
proof -
  let ?f = "ContractFunction ''logScalingAction'' [PStr ''node-1'', PStr ''scale_up'', PStr ''high load'']"
  let ?txn = "\<lparr>tx_data = ?f, tx_chainId = 1337, tx_gas = 300000, tx_gasPrice = 1, tx_nonce = 0\<rparr>"
  let ?L = "snd (ledger_send example_ledger (RawTx ?txn ''b2''))"
  have h1: "get_transaction_count ledger_gateway example_ledger (address example_client)
              = (Inr 0, example_ledger)"
    by (simp add: ledger_gateway_simps example_defs count_from_def)
  have h2: "chain_id ledger_gateway example_ledger = (Inr 1337, example_ledger)"
    by (simp add: ledger_gateway_simps)
  have h3: "gas_price ledger_gateway example_ledger = (Inr 1, example_ledger)"
    by (simp add: ledger_gateway_simps)
  have h4: "build_transaction ledger_gateway example_ledger ?f
              \<lparr>p_chainId = 1337, p_gas = 300000, p_gasPrice = 1, p_nonce = 0\<rparr>
              = (Inr ?txn, example_ledger)"
    by (simp add: ledger_gateway_simps)
  have h5: "sign_transaction ledger_gateway example_ledger ?txn (acct_key (account example_client))
              = (Inr \<lparr>rawTransaction = RawTx ?txn ''b2''\<rparr>, example_ledger)"
    by (simp add: ledger_gateway_simps example_defs)
  have h6: "send_raw_transaction ledger_gateway example_ledger
              (rawTransaction \<lparr>rawTransaction = RawTx ?txn ''b2''\<rparr>) = (Inr (TxHash ''0xb2'' 0), ?L)"
    by (simp add: ledger_gateway_simps ledger_send_def Let_def example_defs count_from_def)
  have h7: "wait_for_transaction_receipt ledger_gateway ?L (TxHash ''0xb2'' 0)
              = (Inr \<lparr>rc_status = 1\<rparr>, ?L)"
    by (simp add: ledger_gateway_simps ledger_send_def Let_def example_defs count_from_def
          apply_call_def is_writer_def)
  have h0: "contract_functions ledger_gateway example_ledger ''logScalingAction''
              [PStr ''node-1'', PStr ''scale_up'', PStr ''high load''] = (Inr ?f, example_ledger)"
    by (simp add: ledger_gateway_simps)
  note seq = send_transaction_sequence[OF h1 h2 h3 h4 h5 h6 h7, of "[]"]
  from seq have a: "send_transaction ledger_gateway example_client ?f 300000 (example_ledger, []) =
     (Inr (to_hex ledger_gateway (TxHash ''0xb2'' 0)),
      (?L, [EvGetTransactionCount ''0xb2'', EvChainId, EvGasPrice,
        EvBuildTransaction ?f \<lparr>p_chainId = 1337, p_gas = 300000, p_gasPrice = 1, p_nonce = 0\<rparr>,
        EvSignTransaction ?txn, EvSendRawTransaction (RawTx ?txn ''b2''),
        EvWaitForTransactionReceipt (TxHash ''0xb2'' 0)]))"
    by (simp add: example_client_def)
  from seq h0 have b: "log_scaling_action ledger_gateway example_client ''node-1'' ''scale_up'' ''high load''
         (example_ledger, []) =
       send_transaction ledger_gateway example_client ?f 300000
         (example_ledger,
          [EvFunction ''logScalingAction'' [PStr ''node-1'', PStr ''scale_up'', PStr ''high load'']])"
    by simp
  from a b show ?thesis by blast
qed

text \<open>
  C7. When the transaction has been broadcast and the wait for its receipt raises, as it
  does when its time is up, the submission raises that same exception: it returns no hash
  and does not raise the exception of a failed transaction in its place. The wait is the
  last call made; the world is as the wait left it, and the trace holds the one broadcast
  and nothing after the wait.
\<close>

theorem receipt_timeout:
  assumes "get_transaction_count gw w0 (address self) = (Inr nonce, w1)"
    and "chain_id gw w1 = (Inr cid, w2)"
    and "gas_price gw w2 = (Inr price, w3)"
    and "build_transaction gw w3 f
           \<lparr>p_chainId = cid, p_gas = gas_limit, p_gasPrice = price, p_nonce = nonce\<rparr> = (Inr txn, w4)"
    and "sign_transaction gw w4 txn (acct_key (account self)) = (Inr signed, w5)"
    and "send_raw_transaction gw w5 (rawTransaction signed) = (Inr h, w6)"
    and "wait_for_transaction_receipt gw w6 h = (Inl e, w7)"
  shows "send_transaction gw self f gas_limit (w0, tr) =
           (Inl e,
            (w7, tr @ [EvGetTransactionCount (address self), EvChainId, EvGasPrice,
                       EvBuildTransaction f
                         \<lparr>p_chainId = cid, p_gas = gas_limit, p_gasPrice = price, p_nonce = nonce\<rparr>,
                       EvSignTransaction txn, EvSendRawTransaction (rawTransaction signed),
                       EvWaitForTransactionReceipt h]))
       \<and> writes (snd (snd (send_transaction gw self f gas_limit (w0, tr))))
           = writes tr @ [EvSendRawTransaction (rawTransaction signed)]"
  using assms by (simp add: send_transaction_def prog_defs writes_def split: exn.splits)

theorem receipt_timeout_witness:
  "send_transaction stalled_gateway example_client
      (ContractFunction ''logScalingAction'' [PStr ''node-1'', PStr ''scale_up'', PStr ''high load''])
      300000 (example_ledger, []) =
     (Inl (Other ''TimeExhausted'' ''not in the chain after 120 seconds''),
      (snd (ledger_send example_ledger
         (RawTx \<lparr>tx_data = ContractFunction ''logScalingAction''
                              [PStr ''node-1'', PStr ''scale_up'', PStr ''high load''],
                  tx_chainId = 1337, tx_gas = 300000, tx_gasPrice = 1, tx_nonce = 0\<rparr> ''b2'')),
       [EvGetTransactionCount ''0xb2'', EvChainId, EvGasPrice,
        EvBuildTransaction
          (ContractFunction ''logScalingAction'' [PStr ''node-1'', PStr ''scale_up'', PStr ''high load''])
          \<lparr>p_chainId = 1337, p_gas = 300000, p_gasPrice = 1, p_nonce = 0\<rparr>,
        EvSignTransaction
          \<lparr>tx_data = ContractFunction ''logScalingAction''
                        [PStr ''node-1'', PStr ''scale_up'', PStr ''high load''],
            tx_chainId = 1337, tx_gas = 300000, tx_gasPrice = 1, tx_nonce = 0\<rparr>,
        EvSendRawTransaction
          (RawTx \<lparr>tx_data = ContractFunction ''logScalingAction''
                              [PStr ''node-1'', PStr ''scale_up'', PStr ''high load''],
                   tx_chainId = 1337, tx_gas = 300000, tx_gasPrice = 1, tx_nonce = 0\<rparr> ''b2''),
        EvWaitForTransactionReceipt (TxHash ''0xb2'' 0)]))
   \<and> writes (snd (snd (send_transaction stalled_gateway example_client
        (ContractFunction ''logScalingAction'' [PStr ''node-1'', PStr ''scale_up'', PStr ''high load''])
        300000 (example_ledger, [])))) =
       [EvSendRawTransaction
          (RawTx \<lparr>tx_data = ContractFunction ''logScalingAction''
                              [PStr ''node-1'', PStr ''scale_up'', PStr ''high load''],
                   tx_chainId = 1337, tx_gas = 300000, tx_gasPrice = 1, tx_nonce = 0\<rparr> ''b2'')]"
proof -
  let ?f = "ContractFunction ''logScalingAction'' [PStr ''node-1'', PStr ''scale_up'', PStr ''high load'']"
  let ?txn = "\<lparr>tx_data = ?f, tx_chainId = 1337, tx_gas = 300000, tx_gasPrice = 1, tx_nonce = 0\<rparr>"
  let ?L = "snd (ledger_send example_ledger (RawTx ?txn ''b2''))"
  have h1: "get_transaction_count stalled_gateway example_ledger (address example_client)
              = (Inr 0, example_ledger)"
    by (simp add: stalled_gateway_simps ledger_gateway_simps example_defs count_from_def)
  have h2: "chain_id stalled_gateway example_ledger = (Inr 1337, example_ledger)"
    by (simp add: stalled_gateway_simps ledger_gateway_simps)
  have h3: "gas_price stalled_gateway example_ledger = (Inr 1, example_ledger)"
    by (simp add: stalled_gateway_simps ledger_gateway_simps)
  have h4: "build_transaction stalled_gateway example_ledger ?f
              \<lparr>p_chainId = 1337, p_gas = 300000, p_gasPrice = 1, p_nonce = 0\<rparr>
              = (Inr ?txn, example_ledger)"
    by (simp add: stalled_gateway_simps ledger_gateway_simps)
  have h5: "sign_transaction stalled_gateway example_ledger ?txn (acct_key (account example_client))
              = (Inr \<lparr>rawTransaction = RawTx ?txn ''b2''\<rparr>, example_ledger)"
    by (simp add: stalled_gateway_simps ledger_gateway_simps example_defs)
  have h6: "send_raw_transaction stalled_gateway example_ledger
              (rawTransaction \<lparr>rawTransaction = RawTx ?txn ''b2''\<rparr>) = (Inr (TxHash ''0xb2'' 0), ?L)"
    by (simp add: stalled_gateway_simps ledger_send_def Let_def example_defs count_from_def)
  have h7: "wait_for_transaction_receipt stalled_gateway ?L (TxHash ''0xb2'' 0)
              = (Inl (Other ''TimeExhausted'' ''not in the chain after 120 seconds''), ?L)"
    by (simp add: stalled_gateway_simps)
  from receipt_timeout[OF h1 h2 h3 h4 h5 h6 h7, of "[]"]
  show ?thesis by (simp add: example_client_def writes_def)
qed

text \<open>
  C10. \<^verbatim>\<open>log_node_metrics\<close> hands its arguments to the binding library as they are, for
  every integer: the first call it makes is the binding of \<open>logNodeMetrics\<close> to the node
  id, the three integers and the integer of the status, whatever their values. When the
  library binds the call and every step of the submission answers, the transaction built
  from that call is the one broadcast.
\<close>

theorem log_node_metrics_passes_values:
  "(\<exists>r w' rest.
      log_node_metrics gw self node_id memory_usage cpu_load allocated_memory status (w, tr) =
        (r, (w', tr @ EvFunction ''logNodeMetrics''
                        [PStr node_id, PInt memory_usage, PInt cpu_load, PInt allocated_memory,
                         PInt (int_of_NodeStatus status)] # rest)))
   \<and> (contract_functions gw w ''logNodeMetrics''
          [PStr node_id, PInt memory_usage, PInt cpu_load, PInt allocated_memory,
           PInt (int_of_NodeStatus status)] = (Inr f, w0)
        \<and> get_transaction_count gw w0 (address self) = (Inr nonce, w1)
        \<and> chain_id gw w1 = (Inr cid, w2)
        \<and> gas_price gw w2 = (Inr price, w3)
        \<and> build_transaction gw w3 f
             \<lparr>p_chainId = cid, p_gas = 300000, p_gasPrice = price, p_nonce = nonce\<rparr> = (Inr txn, w4)
        \<and> sign_transaction gw w4 txn (acct_key (account self)) = (Inr signed, w5)
        \<and> send_raw_transaction gw w5 (rawTransaction signed) = (Inr h, w6)
        \<and> wait_for_transaction_receipt gw w6 h = (Inr rcpt, w7)
      \<longrightarrow> log_node_metrics gw self node_id memory_usage cpu_load allocated_memory status (w, tr) =
            (if rc_status rcpt = 1 then Inr (to_hex gw h)
             else Inl (Exception (''Transaction failed: '' @ to_hex gw h)),
             (w7, tr @ [EvFunction ''logNodeMetrics''
                          [PStr node_id, PInt memory_usage, PInt cpu_load, PInt allocated_memory,
                           PInt (int_of_NodeStatus status)],
                        EvGetTransactionCount (address self), EvChainId, EvGasPrice,
                        EvBuildTransaction f
                          \<lparr>p_chainId = cid, p_gas = 300000, p_gasPrice = price, p_nonce = nonce\<rparr>,
                        EvSignTransaction txn, EvSendRawTransaction (rawTransaction signed),
                        EvWaitForTransactionReceipt h])))"
proof (intro conjI impI)
  let ?ev = "EvFunction ''logNodeMetrics''
               [PStr node_id, PInt memory_usage, PInt cpu_load, PInt allocated_memory,
                PInt (int_of_NodeStatus status)]"
  obtain b wb where b: "contract_functions gw w ''logNodeMetrics''
          [PStr node_id, PInt memory_usage, PInt cpu_load, PInt allocated_memory,
           PInt (int_of_NodeStatus status)] = (b, wb)"
    by (cases "contract_functions gw w ''logNodeMetrics''
          [PStr node_id, PInt memory_usage, PInt cpu_load, PInt allocated_memory,
           PInt (int_of_NodeStatus status)]") auto
  show "\<exists>r w' rest.
      log_node_metrics gw self node_id memory_usage cpu_load allocated_memory status (w, tr) =
        (r, (w', tr @ ?ev # rest))"
  proof (cases b)
    case (Inl e)
    with b show ?thesis by (simp add: log_node_metrics_def bind_prog_def rpc_def)
  next
    case (Inr fn)
    obtain r w' rest where
      "send_transaction gw self fn gas_limit_default (wb, tr @ [?ev]) = (r, (w', (tr @ [?ev]) @ rest))"
      using send_transaction_extends[of gw self fn gas_limit_default wb "tr @ [?ev]"] by blast
    with b Inr show ?thesis by (simp add: log_node_metrics_def bind_prog_def rpc_def)
  qed
next
  assume "contract_functions gw w ''logNodeMetrics''
          [PStr node_id, PInt memory_usage, PInt cpu_load, PInt allocated_memory,
           PInt (int_of_NodeStatus status)] = (Inr f, w0)
        \<and> get_transaction_count gw w0 (address self) = (Inr nonce, w1)
        \<and> chain_id gw w1 = (Inr cid, w2)
        \<and> gas_price gw w2 = (Inr price, w3)
        \<and> build_transaction gw w3 f
             \<lparr>p_chainId = cid, p_gas = 300000, p_gasPrice = price, p_nonce = nonce\<rparr> = (Inr txn, w4)
        \<and> sign_transaction gw w4 txn (acct_key (account self)) = (Inr signed, w5)
        \<and> send_raw_transaction gw w5 (rawTransaction signed) = (Inr h, w6)
        \<and> wait_for_transaction_receipt gw w6 h = (Inr rcpt, w7)"
  then show "log_node_metrics gw self node_id memory_usage cpu_load allocated_memory status (w, tr) =
            (if rc_status rcpt = 1 then Inr (to_hex gw h)
             else Inl (Exception (''Transaction failed: '' @ to_hex gw h)),
             (w7, tr @ [EvFunction ''logNodeMetrics''
                          [PStr node_id, PInt memory_usage, PInt cpu_load, PInt allocated_memory,
                           PInt (int_of_NodeStatus status)],
                        EvGetTransactionCount (address self), EvChainId, EvGasPrice,
                        EvBuildTransaction f
                          \<lparr>p_chainId = cid, p_gas = 300000, p_gasPrice = price, p_nonce = nonce\<rparr>,
                        EvSignTransaction txn, EvSendRawTransaction (rawTransaction signed),
                        EvWaitForTransactionReceipt h]))"
    by (simp add: log_node_metrics_def send_transaction_def gas_limit_default_def prog_defs)
qed

theorem log_node_metrics_passes_values_witness:
  "log_node_metrics ledger_gateway example_client ''node-1'' 1024 150 2048 Normal (example_ledger, []) =
     (Inl (Exception (''Transaction failed: '' @ to_hex ledger_gateway (TxHash ''0xb2'' 0))),
      (snd (ledger_send example_ledger
         (RawTx \<lparr>tx_data = ContractFunction ''logNodeMetrics''
                              [PStr ''node-1'', PInt 1024, PInt 150, PInt 2048, PInt 0],
                  tx_chainId = 1337, tx_gas = 300000, tx_gasPrice = 1, tx_nonce = 0\<rparr> ''b2'')),
       [EvFunction ''logNodeMetrics'' [PStr ''node-1'', PInt 1024, PInt 150, PInt 2048, PInt 0],
        EvGetTransactionCount ''0xb2'', EvChainId, EvGasPrice,
        EvBuildTransaction
          (ContractFunction ''logNodeMetrics'' [PStr ''node-1'', PInt 1024, PInt 150, PInt 2048, PInt 0])
          \<lparr>p_chainId = 1337, p_gas = 300000, p_gasPrice = 1, p_nonce = 0\<rparr>,
        EvSignTransaction
          \<lparr>tx_data = ContractFunction ''logNodeMetrics''
                        [PStr ''node-1'', PInt 1024, PInt 150, PInt 2048, PInt 0],
            tx_chainId = 1337, tx_gas = 300000, tx_gasPrice = 1, tx_nonce = 0\<rparr>,
        EvSendRawTransaction
          (RawTx \<lparr>tx_data = ContractFunction ''logNodeMetrics''
                              [PStr ''node-1'', PInt 1024, PInt 150, PInt 2048, PInt 0],
                   tx_chainId = 1337, tx_gas = 300000, tx_gasPrice = 1, tx_nonce = 0\<rparr> ''b2''),
        EvWaitForTransactionReceipt (TxHash ''0xb2'' 0)]))"
proof -
  let ?f = "ContractFunction ''logNodeMetrics'' [PStr ''node-1'', PInt 1024, PInt 150, PInt 2048, PInt 0]"
  let ?txn = "\<lparr>tx_data = ?f, tx_chainId = 1337, tx_gas = 300000, tx_gasPrice = 1, tx_nonce = 0\<rparr>"
  let ?L = "snd (ledger_send example_ledger (RawTx ?txn ''b2''))"
  have h0: "contract_functions ledger_gateway example_ledger ''logNodeMetrics''
              [PStr ''node-1'', PInt 1024, PInt 150, PInt 2048, PInt (int_of_NodeStatus Normal)]
              = (Inr ?f, example_ledger)"
    by (simp add: ledger_gateway_simps)
  have h1: "get_transaction_count ledger_gateway example_ledger (address example_client)
              = (Inr 0, example_ledger)"
    by (simp add: ledger_gateway_simps example_defs count_from_def)
  have h2: "chain_id ledger_gateway example_ledger = (Inr 1337, example_ledger)"
    by (simp add: ledger_gateway_simps)
  have h3: "gas_price ledger_gateway example_ledger = (Inr 1, example_ledger)"
    by (simp add: ledger_gateway_simps)
  have h4: "build_transaction ledger_gateway example_ledger ?f
              \<lparr>p_chainId = 1337, p_gas = 300000, p_gasPrice = 1, p_nonce = 0\<rparr>
              = (Inr ?txn, example_ledger)"
    by (simp add: ledger_gateway_simps)
  have h5: "sign_transaction ledger_gateway example_ledger ?txn (acct_key (account example_client))
              = (Inr \<lparr>rawTransaction = RawTx ?txn ''b2''\<rparr>, example_ledger)"
    by (simp add: ledger_gateway_simps example_defs)
  have h6: "send_raw_transaction ledger_gateway example_ledger
              (rawTransaction \<lparr>rawTransaction = RawTx ?txn ''b2''\<rparr>) = (Inr (TxHash ''0xb2'' 0), ?L)"
    by (simp add: ledger_gateway_simps ledger_send_def Let_def example_defs count_from_def)
  have h7: "wait_for_transaction_receipt ledger_gateway ?L (TxHash ''0xb2'' 0)
              = (Inr \<lparr>rc_status = 0\<rparr>, ?L)"
    by (simp add: ledger_gateway_simps ledger_send_def Let_def example_defs count_from_def
          apply_call_def is_writer_def)
  from log_node_metrics_passes_values[of ledger_gateway example_client "''node-1''" 1024 150 2048
      Normal example_ledger "[]" ?f example_ledger 0 example_ledger 1337 example_ledger 1
      example_ledger ?txn example_ledger "\<lparr>rawTransaction = RawTx ?txn ''b2''\<rparr>"
      example_ledger "TxHash ''0xb2'' 0" ?L "\<lparr>rc_status = 0\<rparr>" ?L]
    h0 h1 h2 h3 h4 h5 h6 h7
  show ?thesis by (simp add: example_client_def)
qed

section \<open>Reading records\<close>



text \<open>
  C5. When the contract answers the read of the latest record with the empty tuple,
  \<^verbatim>\<open>get_latest_node_metrics\<close> returns no record: the first subscript raises \<open>IndexError\<close>
  and the call raises it on. When the contract rejects the read instead, the call raises
  what the read raised. Either way the caller gets an exception and no record.
\<close>

theorem latest_empty_tuple:
  "(call_getLatestNodeMetrics gw w node_id = (Inr [], w')
    \<longrightarrow> get_latest_node_metrics gw self node_id (w, tr) =
          (Inl (IndexError ''tuple index out of range''),
           (w', tr @ [EvCall (ContractFunction ''getLatestNodeMetrics'' [PStr node_id])])))
   \<and> (call_getLatestNodeMetrics gw w node_id = (Inl e, w')
    \<longrightarrow> get_latest_node_metrics gw self node_id (w, tr) =
          (Inl e, (w', tr @ [EvCall (ContractFunction ''getLatestNodeMetrics'' [PStr node_id])])))"
  by (simp add: get_latest_node_metrics_def prog_defs latest_fields_def subscript_def bind_exn_def)

theorem latest_empty_tuple_witness:
  "get_latest_node_metrics ledger_gateway example_client ''node-9'' (example_ledger, []) =
     (Inl (IndexError ''tuple index out of range''),
      (example_ledger, [EvCall (ContractFunction ''getLatestNodeMetrics'' [PStr ''node-9''])]))
   \<and> get_latest_node_metrics reverting_gateway example_client ''node-9'' (example_ledger, []) =
     (Inl (ContractLogicError ''execution reverted: no metrics for this node''),
      (example_ledger, [EvCall (ContractFunction ''getLatestNodeMetrics'' [PStr ''node-9''])]))"
proof -
  have a: "call_getLatestNodeMetrics ledger_gateway example_ledger ''node-9'' = (Inr [], example_ledger)"
    by (simp add: ledger_gateway_simps latest_tuple_def example_ledger_def)
  have b: "call_getLatestNodeMetrics reverting_gateway example_ledger ''node-9'' =
             (Inl (ContractLogicError ''execution reverted: no metrics for this node''), example_ledger)"
    by (simp add: reverting_gateway_def)
  from latest_empty_tuple[of ledger_gateway example_ledger "''node-9''" example_ledger example_client "[]"] a
  have c: "get_latest_node_metrics ledger_gateway example_client ''node-9'' (example_ledger, []) =
     (Inl (IndexError ''tuple index out of range''),
      (example_ledger, [EvCall (ContractFunction ''getLatestNodeMetrics'' [PStr ''node-9''])]))"
    by simp
  from latest_empty_tuple[of reverting_gateway example_ledger "''node-9''" example_ledger example_client
      "[]" "ContractLogicError ''execution reverted: no metrics for this node''"] b
  have d: "get_latest_node_metrics reverting_gateway example_client ''node-9'' (example_ledger, []) =
     (Inl (ContractLogicError ''execution reverted: no metrics for this node''),
      (example_ledger, [EvCall (ContractFunction ''getLatestNodeMetrics'' [PStr ''node-9''])]))"
    by simp
  from c d show ?thesis by blast
qed

text \<open>
  C6. On the ledger, for a start index that is not negative and a positive count, the
  history read returns the stored records of the node from the start index on, at most
  \<open>count\<close> of them, in the order of storage, oldest first, and raises nothing when fewer
  are left than were asked for. With the defaults 0 and 10, a node with exactly three
  records yields exactly those three.
\<close>

theorem history_oldest_first:
  assumes "0 \<le> start_index" and "0 < count" and "list_all valid_record (l_history L node_id)"
  shows "get_node_metrics_history ledger_gateway self node_id start_index count (L, tr) =
           (Inr (map record_dict (take (nat count) (drop (nat start_index) (l_history L node_id)))),
            (L, tr @ [EvCall (ContractFunction ''getNodeMetricsHistory''
                                [PStr node_id, PInt start_index, PInt count])]))
       \<and> (length (l_history L node_id) = 3 \<longrightarrow>
            (\<exists>ds. get_node_metrics_history ledger_gateway self node_id
                     start_index_default count_default (L, tr) =
                   (Inr ds,
                    (L, tr @ [EvCall (ContractFunction ''getNodeMetricsHistory''
                                        [PStr node_id, PInt 0, PInt 10])]))
                 \<and> length ds = 3 \<and> ds = map record_dict (l_history L node_id)))"
  using assms list_all_slice[OF assms(3)]
  by (simp add: get_node_metrics_history_def prog_defs ledger_gateway_simps history_loop_map
        start_index_default_def count_default_def)

theorem history_oldest_first_witness:
  "get_node_metrics_history ledger_gateway example_client ''node-1'' 0 10 (recorded_ledger, []) =
     (Inr (map record_dict example_records),
      (recorded_ledger,
       [EvCall (ContractFunction ''getNodeMetricsHistory'' [PStr ''node-1'', PInt 0, PInt 10])]))
   \<and> length (map record_dict example_records) = 3
   \<and> get_node_metrics_history ledger_gateway example_client ''node-1'' 1 5 (recorded_ledger, []) =
     (Inr (map record_dict (tl example_records)),
      (recorded_ledger,
       [EvCall (ContractFunction ''getNodeMetricsHistory'' [PStr ''node-1'', PInt 1, PInt 5])]))"
proof -
  have h: "l_history recorded_ledger ''node-1'' = example_records"
    by (simp add: recorded_ledger_def)
  have v: "list_all valid_record (l_history recorded_ledger ''node-1'')"
    by (simp add: h example_records_def valid_record_def)
  have n: "length (l_history recorded_ledger ''node-1'') = 3"
    by (simp add: h example_records_def)
  have s: "take 5 (drop (Suc 0) example_records) = tl example_records"
    by (simp add: example_records_def)
  from history_oldest_first[OF _ _ v, of 0 10 example_client "[]"] n
  have a: "get_node_metrics_history ledger_gateway example_client ''node-1'' 0 10 (recorded_ledger, []) =
     (Inr (map record_dict example_records),
      (recorded_ledger,
       [EvCall (ContractFunction ''getNodeMetricsHistory'' [PStr ''node-1'', PInt 0, PInt 10])]))"
    by (simp add: h start_index_default_def count_default_def)
  from history_oldest_first[OF _ _ v, of 1 5 example_client "[]"]
  have b: "get_node_metrics_history ledger_gateway example_client ''node-1'' 1 5 (recorded_ledger, []) =
     (Inr (map record_dict (tl example_records)),
      (recorded_ledger,
       [EvCall (ContractFunction ''getNodeMetricsHistory'' [PStr ''node-1'', PInt 1, PInt 5])]))"
    by (simp add: h s)
  from a b n h show ?thesis by simp
qed

section \<open>The status enum\<close>

text \<open>
  C8. The three members are encoded as 0, 1 and 2, and decoding the integer of a member
  gives that member back.
\<close>

theorem status_round_trip:
  "NodeStatus_of (PInt (int_of_NodeStatus s)) = Inr s
   \<and> int_of_NodeStatus Normal = 0 \<and> int_of_NodeStatus Scaling = 1 \<and> int_of_NodeStatus Alert = 2"
  by (cases s) simp_all

text \<open>
  C9. A tuple whose status field is an integer other than 0, 1 and 2 is rejected: the
  read of the latest record raises the \<open>ValueError\<close> of the enum, and a history read whose
  answer contains such a tuple raises and returns no list.
\<close>

theorem status_validated:
  assumes "5 < length metrics" and "metrics ! 5 = PInt n" and "n \<noteq> 0 \<and> n \<noteq> 1 \<and> n \<noteq> 2"
  shows "(call_getLatestNodeMetrics gw w node_id = (Inr metrics, w')
          \<longrightarrow> get_latest_node_metrics gw self node_id (w, tr) =
                (Inl (NotAValidNodeStatus (PInt n)),
                 (w', tr @ [EvCall (ContractFunction ''getLatestNodeMetrics'' [PStr node_id])])))
       \<and> (call_getNodeMetricsHistory gw w node_id start_index count = (Inr ml, w') \<and> metrics \<in> set ml
          \<longrightarrow> (\<exists>e. get_node_metrics_history gw self node_id start_index count (w, tr) =
                (Inl e,
                 (w', tr @ [EvCall (ContractFunction ''getNodeMetricsHistory''
                                      [PStr node_id, PInt start_index, PInt count])]))))"
proof (intro conjI impI)
  assume "call_getLatestNodeMetrics gw w node_id = (Inr metrics, w')"
  then show "get_latest_node_metrics gw self node_id (w, tr) =
                (Inl (NotAValidNodeStatus (PInt n)),
                 (w', tr @ [EvCall (ContractFunction ''getLatestNodeMetrics'' [PStr node_id])]))"
    using latest_fields_bad_status[of metrics n] assms
    by (simp add: get_latest_node_metrics_def prog_defs)
next
  assume h: "call_getNodeMetricsHistory gw w node_id start_index count = (Inr ml, w') \<and> metrics \<in> set ml"
  then obtain e where "history_loop gw ml [] = Inl e"
    using history_loop_bad_status[of metrics ml n gw "[]"] assms by blast
  with h show "\<exists>e. get_node_metrics_history gw self node_id start_index count (w, tr) =
                (Inl e,
                 (w', tr @ [EvCall (ContractFunction ''getNodeMetricsHistory''
                                      [PStr node_id, PInt start_index, PInt count])]))"
    by (simp add: get_node_metrics_history_def prog_defs)
qed

theorem status_validated_witness:
  "get_latest_node_metrics ledger_gateway example_client ''node-1'' (corrupt_ledger, []) =
     (Inl (NotAValidNodeStatus (PInt 7)),
      (corrupt_ledger, [EvCall (ContractFunction ''getLatestNodeMetrics'' [PStr ''node-1''])]))
   \<and> (\<exists>e. get_node_metrics_history ledger_gateway example_client ''node-1'' 0 10 (corrupt_ledger, []) =
     (Inl e,
      (corrupt_ledger,
       [EvCall (ContractFunction ''getNodeMetricsHistory'' [PStr ''node-1'', PInt 0, PInt 10])])))"
proof -
  let ?m = "[PStr ''node-1'', PInt 1700000001, PInt 512, PInt 35, PInt 1024, PInt 7, PStr []]"
  have a: "5 < length ?m" and b: "?m ! 5 = PInt 7" and c: "(7::int) \<noteq> 0 \<and> (7::int) \<noteq> 1 \<and> (7::int) \<noteq> 2"
    by simp_all
  have l: "call_getLatestNodeMetrics ledger_gateway corrupt_ledger ''node-1'' = (Inr ?m, corrupt_ledger)"
    by (simp add: ledger_gateway_simps latest_tuple_def corrupt_ledger_def tuple_of_def)
  have h: "call_getNodeMetricsHistory ledger_gateway corrupt_ledger ''node-1'' 0 10
             = (Inr [?m], corrupt_ledger)"
    by (simp add: ledger_gateway_simps corrupt_ledger_def tuple_of_def)
  from status_validated[OF a b c, of ledger_gateway corrupt_ledger "''node-1''" corrupt_ledger
      example_client "[]" 0 10 "[?m]"] l h
  show ?thesis by simp
qed

end
